theory Spec2Isabelle
  imports
    Main
    "HOL-Library.Multiset"
    "HOL-Library.Char_ord"
    "HOL-Library.List_Lexorder"
    "HOL-Library.Product_Lexorder"
    "HOL-Library.Word"
begin

section \<open>Data model\<close>

text \<open>
  The program is a single script, \<^verbatim>\<open>app.py\<close>: it reads two CSV files into pandas
  data frames, filters them by year once (\<^verbatim>\<open>load_data\<close>), and renders one of four
  pages from the loaded frames.

  A data frame is modelled row-wise: the list of its column names and the list of its
  rows. A row is a record with one field per column the script ever touches. The columns
  the data model requires (\<^verbatim>\<open>DESCRIPTION\<close>, \<^verbatim>\<open>DISPENSES\<close>, \<^verbatim>\<open>Medicine\<close>, \<^verbatim>\<open>Type\<close>,
  \<^verbatim>\<open>Value\<close>) are taken to be present. The others may be missing from \<open>columns\<close>, and
  then the field is never read: the script tests \<open>columns\<close> before each access, except
  for the sort by \<^verbatim>\<open>Year\<close> on the forecast page, which raises \<^verbatim>\<open>KeyError\<close> and is
  modelled as returning that error.

  Cells: a text column holds \<open>string option\<close> and a numeric column holds \<open>int option\<close>,
  where \<open>None\<close> is pandas' missing value (NaN). The cells of a numeric column are
  integers (counts, years, amounts in whole units). pandas holds such a column either as
  int64 or, when the file has a missing or fractional value in it, as float64; which one
  is fixed when the file is read and kept by every filter, so it is a field of the frame
  (\<open>float64_columns\<close>). The totals that the pages display are computed in that
  arithmetic (section on the scalars below): 64-bit two's complement for int64, and for
  float64 the sum is kept as the list of its summands, floating point being outside what
  is modelled. Sums per group serve to order and select rows and are kept as integer
  sums. The two columns that
  \<^verbatim>\<open>load_data\<close> converts (\<^verbatim>\<open>Month\<close> of the medication file, \<^verbatim>\<open>Year\<close> of the forecast file)
  hold a \<open>cell\<close>, which can be the text read from the file, a number, a timestamp or
  missing (NaN and NaT are both \<open>NaN\<close>).
\<close>

datatype timestamp = Timestamp (ts_year: int) (ts_month: nat) (ts_day: nat)

datatype cell = Text string | Num int | Stamp timestamp | NaN

record 'r frame =
  columns :: "string list"
  rows :: "'r list"
  float64_columns :: "string list"

text \<open>\<^verbatim>\<open>medication_summary.csv\<close>\<close>

record med_row =
  DESCRIPTION :: "string option"
  DISPENSES :: "int option"
  TOTALCOST :: "int option"
  ENCOUNTERCLASS :: "string option"
  Month :: cell
  Year :: "int option"

text \<open>\<^verbatim>\<open>actual_forecast_combined.csv\<close>\<close>

record afc_row =
  Medicine :: "string option"
  Type :: "string option"
  Value :: "int option"
  afc_Year :: cell

datatype error = ReadError string | KeyError string | ValueError string

section \<open>pandas operations used by the script\<close>

text \<open>\<^verbatim>\<open>df[name] = values\<close>: a new column is appended, an existing one is replaced in place.\<close>

definition set_column :: "string \<Rightarrow> string list \<Rightarrow> string list" where
  "set_column name cols = (if name \<in> set cols then cols else cols @ [name])"

text \<open>\<^verbatim>\<open>series.dt.year\<close>: the calendar year of a timestamp, missing for NaT.\<close>

fun dt_year :: "cell \<Rightarrow> int option" where
  "dt_year (Stamp t) = Some (ts_year t)"
| "dt_year _ = None"

text \<open>
  \<^verbatim>\<open>pd.to_numeric(series, errors="coerce")\<close>, on one cell: a number stays, text is parsed
  and becomes missing when it is not a number. The parser of the text is pandas' own and
  is a parameter \<open>str_to_num\<close>.
\<close>

fun to_numeric :: "(string \<Rightarrow> int option) \<Rightarrow> cell \<Rightarrow> cell" where
  "to_numeric str_to_num (Num n) = Num n"
| "to_numeric str_to_num (Text s) = (case str_to_num s of Some n \<Rightarrow> Num n | None \<Rightarrow> NaN)"
| "to_numeric str_to_num _ = NaN"

text \<open>
  \<^verbatim>\<open>pd.to_datetime(series, errors="coerce")\<close> followed by the \<^verbatim>\<open>.dt\<close> accessor. The
  parser is pandas' own and is a parameter \<open>parse_datetime\<close>. It is given the whole
  column, because pandas infers the date format from the column, and it either fails for
  the column as a whole or gives the conversion of a cell. It fails, even with
  \<^verbatim>\<open>errors="coerce"\<close>, on a column whose dates carry different UTC offsets: pandas then
  raises, or returns a column that is not a datetime column and on which \<^verbatim>\<open>.dt\<close>
  raises. Where it does not fail, every cell becomes a timestamp or NaT.
\<close>

definition to_datetime ::
  "(cell list \<Rightarrow> error + (cell \<Rightarrow> timestamp option)) \<Rightarrow> cell list \<Rightarrow> error + cell list" where
  "to_datetime parse_datetime col =
     (case parse_datetime col of
        Inl e \<Rightarrow> Inl e
      | Inr f \<Rightarrow> Inr (map (\<lambda>c. case f c of Some t \<Rightarrow> Stamp t | None \<Rightarrow> NaN) col))"

text \<open>
  Comparisons of a numeric column with a constant, \<^verbatim>\<open>series >= n\<close> and \<^verbatim>\<open>series <= n\<close>:
  a comparison with a missing value is False.
\<close>

fun ge_opt :: "int option \<Rightarrow> int \<Rightarrow> bool" where
  "ge_opt (Some v) n = (n \<le> v)"
| "ge_opt None n = False"

fun le_opt :: "int option \<Rightarrow> int \<Rightarrow> bool" where
  "le_opt (Some v) n = (v \<le> n)"
| "le_opt None n = False"

fun num_of :: "cell \<Rightarrow> int option" where
  "num_of (Num n) = Some n"
| "num_of _ = None"

section \<open>Data loading\<close>

text \<open>
  The medication part of \<^verbatim>\<open>load_data\<close> (lines 17 to 23): when the frame has a
  \<^verbatim>\<open>Month\<close> column, parse it, derive \<^verbatim>\<open>Year\<close>, keep the rows with 2020 \<le> Year \<le> 2025.
  The exception of the parser, if any, ends the load.
\<close>

definition load_meds ::
  "(cell list \<Rightarrow> error + (cell \<Rightarrow> timestamp option)) \<Rightarrow> med_row frame
     \<Rightarrow> error + med_row frame" where
  "load_meds parse_datetime meds =
     (if ''Month'' \<in> set (columns meds) then
        (case to_datetime parse_datetime (map Month (rows meds)) of
           Inl e \<Rightarrow> Inl e
         | Inr col \<Rightarrow>
            let meds1 = meds\<lparr>rows := map2 (\<lambda>r c. r\<lparr>Month := c\<rparr>) (rows meds) col\<rparr>;
                meds2 = meds1\<lparr>columns := set_column ''Year'' (columns meds1),
                              rows := map (\<lambda>r. r\<lparr>Year := dt_year (Month r)\<rparr>) (rows meds1)\<rparr>
            in Inr (meds2\<lparr>rows := filter (\<lambda>r. ge_opt (Year r) 2020 \<and> le_opt (Year r) 2025)
                                         (rows meds2)\<rparr>))
      else Inr meds)"

text \<open>
  The forecast part (lines 25 to 30): when the frame has a \<^verbatim>\<open>Year\<close> column, coerce it to
  numbers and keep the rows with 2020 \<le> Year \<le> 2025.
\<close>

definition load_afc :: "(string \<Rightarrow> int option) \<Rightarrow> afc_row frame \<Rightarrow> afc_row frame" where
  "load_afc str_to_num afc =
     (if ''Year'' \<in> set (columns afc) then
        let afc1 = afc\<lparr>rows := map (\<lambda>r. r\<lparr>afc_Year := to_numeric str_to_num (afc_Year r)\<rparr>)
                                   (rows afc)\<rparr>
        in afc1\<lparr>rows := filter (\<lambda>r. ge_opt (num_of (afc_Year r)) 2020
                                     \<and> le_opt (num_of (afc_Year r)) 2025) (rows afc1)\<rparr>
      else afc)"

text \<open>
  The outside world of \<^verbatim>\<open>load_data\<close>: the two files, each as the frame \<^verbatim>\<open>pd.read_csv\<close>
  makes of it (\<open>None\<close> when the file cannot be read, where \<^verbatim>\<open>read_csv\<close> raises), and the
  store of \<^verbatim>\<open>@st.cache_data\<close>, which holds the value of the one earlier call that
  returned (the function has no arguments).
\<close>

record world =
  medication_summary_csv :: "med_row frame option"
  actual_forecast_combined_csv :: "afc_row frame option"
  cache_data :: "(med_row frame \<times> afc_row frame) option"

definition read_csv :: "string \<Rightarrow> 'r frame option \<Rightarrow> error + 'r frame" where
  "read_csv name file = (case file of None \<Rightarrow> Inl (ReadError name) | Some df \<Rightarrow> Inr df)"

text \<open>The body of \<^verbatim>\<open>load_data\<close> (lines 13 to 32). It reads the world and writes nothing.\<close>

definition load_data_body ::
  "(cell list \<Rightarrow> error + (cell \<Rightarrow> timestamp option)) \<Rightarrow> (string \<Rightarrow> int option) \<Rightarrow> world
     \<Rightarrow> error + (med_row frame \<times> afc_row frame)" where
  "load_data_body parse_datetime str_to_num w =
     (case read_csv ''medication_summary.csv'' (medication_summary_csv w) of
        Inl e \<Rightarrow> Inl e
      | Inr meds \<Rightarrow>
         (case read_csv ''actual_forecast_combined.csv'' (actual_forecast_combined_csv w) of
            Inl e \<Rightarrow> Inl e
          | Inr afc \<Rightarrow>
             (case load_meds parse_datetime meds of
                Inl e \<Rightarrow> Inl e
              | Inr meds' \<Rightarrow> Inr (meds', load_afc str_to_num afc))))"

text \<open>
  \<^verbatim>\<open>load_data\<close> as decorated with \<^verbatim>\<open>@st.cache_data\<close> (line 12): a stored value is returned
  without running the body; otherwise the body runs and its value, when it returns one, is
  stored. An exception is not stored.
\<close>

definition load_data ::
  "(cell list \<Rightarrow> error + (cell \<Rightarrow> timestamp option)) \<Rightarrow> (string \<Rightarrow> int option) \<Rightarrow> world
     \<Rightarrow> (error + (med_row frame \<times> afc_row frame)) \<times> world" where
  "load_data parse_datetime str_to_num w =
     (case cache_data w of
        Some v \<Rightarrow> (Inr v, w)
      | None \<Rightarrow>
         (case load_data_body parse_datetime str_to_num w of
            Inl e \<Rightarrow> (Inl e, w)
          | Inr v \<Rightarrow> (Inr v, w\<lparr>cache_data := Some v\<rparr>)))"

section \<open>Aggregation and sorting\<close>

text \<open>\<^verbatim>\<open>series.dropna()\<close>: the values that are not missing, in order.\<close>

fun dropna :: "'a option list \<Rightarrow> 'a list" where
  "dropna [] = []"
| "dropna (None # xs) = dropna xs"
| "dropna (Some x # xs) = x # dropna xs"

text \<open>\<^verbatim>\<open>series.sum()\<close> skips missing values; the sum of no value is 0.\<close>

definition series_sum :: "int option list \<Rightarrow> int" where
  "series_sum xs = sum_list (dropna xs)"

text \<open>\<^verbatim>\<open>series.nunique()\<close>: the number of distinct values, missing values not counted.\<close>

definition nunique :: "'a option list \<Rightarrow> nat" where
  "nunique xs = length (remdups (dropna xs))"

text \<open>
  \<^verbatim>\<open>df.groupby(key)\<close>: one group per distinct key value, in ascending order of the key
  (\<^verbatim>\<open>sort=True\<close>); rows whose key is missing are in no group (\<^verbatim>\<open>dropna=True\<close>). With
  two key columns the key of a row is the pair, missing when either part is, and pairs
  are ordered lexicographically.
\<close>

definition group_keys :: "('r \<Rightarrow> 'k option) \<Rightarrow> 'r list \<Rightarrow> ('k::linorder) list" where
  "group_keys key rs = sort (remdups (dropna (map key rs)))"

definition group_rows :: "('r \<Rightarrow> 'k option) \<Rightarrow> 'k \<Rightarrow> 'r list \<Rightarrow> 'r list" where
  "group_rows key k rs = filter (\<lambda>r. key r = Some k) rs"

text \<open>\<^verbatim>\<open>df.groupby(key)[val].sum()\<close>\<close>

definition groupby_sum ::
  "('r \<Rightarrow> 'k option) \<Rightarrow> ('r \<Rightarrow> int option) \<Rightarrow> 'r list \<Rightarrow> (('k::linorder) \<times> int) list" where
  "groupby_sum key val rs =
     map (\<lambda>k. (k, series_sum (map val (group_rows key k rs)))) (group_keys key rs)"

text \<open>\<^verbatim>\<open>df.groupby(key)[val].nunique()\<close>\<close>

definition groupby_nunique ::
  "('r \<Rightarrow> 'k option) \<Rightarrow> ('r \<Rightarrow> 'v option) \<Rightarrow> 'r list \<Rightarrow> (('k::linorder) \<times> nat) list" where
  "groupby_nunique key val rs =
     map (\<lambda>k. (k, nunique (map val (group_rows key k rs)))) (group_keys key rs)"

text \<open>
  \<^verbatim>\<open>sort_values(col, ascending=...)\<close> on one column. pandas sorts with numpy's
  \<^verbatim>\<open>kind="quicksort"\<close> by default, which promises a sorted permutation and nothing about
  the order of rows with equal keys; the routine is therefore a parameter \<open>quicksort\<close>
  (rows sorted ascending by an integer key), constrained by \<open>sorts\<close> where a property
  needs it. As pandas does, the rows with a missing key are set aside and put last in
  their original order, and a descending sort reverses the rows, sorts ascending and
  reverses the result.
\<close>

definition sorts :: "(('a \<Rightarrow> int) \<Rightarrow> 'a list \<Rightarrow> 'a list) \<Rightarrow> bool" where
  "sorts quicksort \<longleftrightarrow>
     (\<forall>key xs. mset (quicksort key xs) = mset xs \<and> sorted (map key (quicksort key xs)))"

definition sort_values ::
  "(('a \<Rightarrow> int) \<Rightarrow> 'a list \<Rightarrow> 'a list) \<Rightarrow> ('a \<Rightarrow> int option) \<Rightarrow> bool \<Rightarrow> 'a list \<Rightarrow> 'a list" where
  "sort_values quicksort col ascending xs =
     (let non_nans = filter (\<lambda>x. col x \<noteq> None) xs;
          nans = filter (\<lambda>x. col x = None) xs;
          key = (\<lambda>x. case col x of Some v \<Rightarrow> v | None \<Rightarrow> 0)
      in (if ascending then quicksort key non_nans
          else rev (quicksort key (rev non_nans))) @ nans)"

text \<open>\<^verbatim>\<open>series.isin(values)\<close>: a missing value is in no list of names.\<close>

fun isin :: "'a option \<Rightarrow> 'a list \<Rightarrow> bool" where
  "isin (Some x) vs = (x \<in> set vs)"
| "isin None vs = False"

text \<open>\<^verbatim>\<open>series == value\<close>: a comparison with a missing value, or with \<^verbatim>\<open>None\<close>, is False.\<close>

fun eq_opt :: "'a option \<Rightarrow> 'a option \<Rightarrow> bool" where
  "eq_opt (Some x) (Some y) = (x = y)"
| "eq_opt _ _ = False"

section \<open>What a page shows\<close>

text \<open>
  A page is the list of the elements it puts on the screen, in order. The text of a
  metric is kept symbolic: \<open>Thousands n\<close> is \<^verbatim>\<open>f"{n:,}"\<close>, \<open>Dollars n\<close> is
  \<^verbatim>\<open>f"${n:,}"\<close>, \<open>Plain s\<close> is the literal \<open>s\<close>. The number \<open>n\<close> in them is a
  \<open>shown_int\<close>: an integer, or the integer part of a floating-point sum, which is kept as
  the list of the summands. A bar chart is the list of its bars:
  \<^verbatim>\<open>px.bar\<close> draws one bar per row of the frame it is given, from the columns named
  as \<^verbatim>\<open>x\<close>, \<^verbatim>\<open>y\<close> and \<^verbatim>\<open>color\<close>. Labels, layout and widget keys are left out.
\<close>

datatype shown_int = Exactly int | Int_of_float64_sum "int list"

datatype metric_text = Thousands shown_int | Dollars shown_int | Plain string

datatype bar = Bar (bar_x: cell) (bar_y: cell) (bar_color: "cell option")

datatype element =
    Title string
  | Subheader string
  | Markdown string
  | Metric string metric_text
  | Info string
  | Plotly_chart "bar list"
  | Dataframe "(string \<times> string \<times> int) list"
  | Narrative shown_int nat

fun text_cell :: "string option \<Rightarrow> cell" where
  "text_cell (Some s) = Text s"
| "text_cell None = NaN"

fun num_cell :: "int option \<Rightarrow> cell" where
  "num_cell (Some n) = Num n"
| "num_cell None = NaN"

definition px_bar :: "'r list \<Rightarrow> ('r \<Rightarrow> cell) \<Rightarrow> ('r \<Rightarrow> cell) \<Rightarrow> ('r \<Rightarrow> cell) option \<Rightarrow> bar list" where
  "px_bar df x y color =
     map (\<lambda>r. Bar (x r) (y r) (case color of None \<Rightarrow> None | Some c \<Rightarrow> Some (c r))) df"

section \<open>Column flags and the scalars of the Overview and the Executive Summary\<close>

definition has_total_cost :: "med_row frame \<Rightarrow> bool" where
  "has_total_cost meds \<longleftrightarrow> ''TOTALCOST'' \<in> set (columns meds)"

definition has_encounterclass :: "med_row frame \<Rightarrow> bool" where
  "has_encounterclass meds \<longleftrightarrow> ''ENCOUNTERCLASS'' \<in> set (columns meds)"

text \<open>
  \<^verbatim>\<open>df[name].sum()\<close> on a whole column gives a numpy scalar of the column's type. On an
  int64 column the sum is taken in int64, where addition wraps around (64-bit two's
  complement). On a float64 column it is a floating-point sum of the values that are not
  missing; its value is outside what is modelled and the scalar keeps the summands.
\<close>

datatype scalar = Int64 "64 word" | Float64 "int list"

definition column_sum :: "'r frame \<Rightarrow> string \<Rightarrow> ('r \<Rightarrow> int option) \<Rightarrow> scalar" where
  "column_sum df name col =
     (if name \<in> set (float64_columns df)
      then Float64 (dropna (map col (rows df)))
      else Int64 (sum_list (map word_of_int (dropna (map col (rows df))))))"

text \<open>
  \<^verbatim>\<open>int(x)\<close> on such a scalar: the signed value of an int64, the integer part of a
  float64.
\<close>

fun int_cast :: "scalar \<Rightarrow> shown_int" where
  "int_cast (Int64 w) = Exactly (sint w)"
| "int_cast (Float64 xs) = Int_of_float64_sum xs"

text \<open>Lines 59 to 61, and again 182 to 184.\<close>

definition total_dispenses :: "med_row frame \<Rightarrow> scalar" where
  "total_dispenses meds = column_sum meds ''DISPENSES'' DISPENSES"

definition unique_meds :: "med_row frame \<Rightarrow> nat" where
  "unique_meds meds = nunique (map DESCRIPTION (rows meds))"

definition total_cost :: "med_row frame \<Rightarrow> scalar option" where
  "total_cost meds =
     (if has_total_cost meds then Some (column_sum meds ''TOTALCOST'' TOTALCOST) else None)"

text \<open>
  The three metrics (lines 63 to 69, and again 186 to 192), with the \<^verbatim>\<open>int(...)\<close> of lines
  64 and 67.
\<close>

definition metrics :: "med_row frame \<Rightarrow> element list" where
  "metrics meds =
     [Metric ''Total Medicines Dispensed'' (Thousands (int_cast (total_dispenses meds))),
      Metric ''Unique Medicines'' (Thousands (Exactly (int (unique_meds meds)))),
      (case total_cost meds of
         Some c \<Rightarrow> Metric ''Total Cost of Medicines'' (Dollars (int_cast c))
       | None \<Rightarrow> Metric ''Total Cost of Medicines'' (Plain ''N/A''))]"

section \<open>Page 1: Dashboard Overview\<close>

text \<open>Lines 74 to 80: the names of the five medicines with the largest summed dispenses.\<close>

definition top_meds :: "((string \<times> int \<Rightarrow> int) \<Rightarrow> (string \<times> int) list \<Rightarrow> (string \<times> int) list)
    \<Rightarrow> med_row frame \<Rightarrow> string list" where
  "top_meds quicksort meds =
     map fst (take 5 (sort_values quicksort (\<lambda>g. Some (snd g)) False
                        (groupby_sum DESCRIPTION DISPENSES (rows meds))))"

text \<open>Line 81.\<close>

definition meds_top :: "((string \<times> int \<Rightarrow> int) \<Rightarrow> (string \<times> int) list \<Rightarrow> (string \<times> int) list)
    \<Rightarrow> med_row frame \<Rightarrow> med_row frame" where
  "meds_top quicksort meds =
     meds\<lparr>rows := filter (\<lambda>r. isin (DESCRIPTION r) (top_meds quicksort meds)) (rows meds)\<rparr>"

text \<open>
  Lines 83 to 94: the trend chart, or a notice when there is no \<^verbatim>\<open>Year\<close> column. (The
  heading of line 71 has a dash outside ASCII, written \<open>-\<close> below.)
\<close>

definition trend :: "med_row frame \<Rightarrow> element" where
  "trend df =
     (if ''Year'' \<in> set (columns df) then
        Plotly_chart (px_bar (rows df) (\<lambda>r. num_cell (Year r)) (\<lambda>r. num_cell (DISPENSES r))
                        (Some (\<lambda>r. text_cell (DESCRIPTION r))))
      else Info ''Year column not available for trend chart.'')"

definition dashboard_overview ::
  "((string \<times> int \<Rightarrow> int) \<Rightarrow> (string \<times> int) list \<Rightarrow> (string \<times> int) list)
    \<Rightarrow> med_row frame \<Rightarrow> error + element list" where
  "dashboard_overview quicksort meds =
     Inr ([Title ''Forecasting Medicine Requirements for a Hospital'',
           Subheader ''Overview of Medicine Usage and Key Metrics'']
          @ metrics meds
          @ [Markdown ''### Top Medicines Dispensed - 5-Year Trend'',
             trend (meds_top quicksort meds)])"

section \<open>Page 2: Forecasting by Year\<close>

text \<open>
  Lines 103 to 107: per medicine, the number of distinct types. After \<^verbatim>\<open>reset_index\<close> the
  medicine is a column of the result, so its cells are kept as \<open>string option\<close>.
\<close>

definition type_counts :: "afc_row frame \<Rightarrow> (string option \<times> nat) list" where
  "type_counts afc = map (\<lambda>(m, n). (Some m, n)) (groupby_nunique Medicine Type (rows afc))"

text \<open>Line 110.\<close>

definition valid_meds :: "afc_row frame \<Rightarrow> string option list" where
  "valid_meds afc = map fst (filter (\<lambda>(m, n). 2 \<le> n) (type_counts afc))"

text \<open>
  Line 111: \<^verbatim>\<open>sorted(valid_meds.dropna().unique())\<close>. Python orders strings by code point,
  which is the order of \<open>string\<close> here.
\<close>

definition med_list :: "afc_row frame \<Rightarrow> string list" where
  "med_list afc = sort (remdups (dropna (valid_meds afc)))"

text \<open>
  Lines 121 and 122. \<open>selected_medicine\<close> is what the select box returned: one of its
  options, or \<^verbatim>\<open>None\<close> when it has no option. \<^verbatim>\<open>sort_values("Year")\<close> raises
  \<^verbatim>\<open>KeyError\<close> on a frame without that column.
\<close>

definition df_med :: "((afc_row \<Rightarrow> int) \<Rightarrow> afc_row list \<Rightarrow> afc_row list)
    \<Rightarrow> afc_row frame \<Rightarrow> string option \<Rightarrow> error + afc_row frame" where
  "df_med quicksort afc selected_medicine =
     (let df = afc\<lparr>rows := filter (\<lambda>r. eq_opt (Medicine r) selected_medicine) (rows afc)\<rparr>
      in if ''Year'' \<in> set (columns df)
         then Inr (df\<lparr>rows := sort_values quicksort (\<lambda>r. num_of (afc_Year r)) True (rows df)\<rparr>)
         else Inl (KeyError ''Year''))"

definition forecasting_by_year :: "((afc_row \<Rightarrow> int) \<Rightarrow> afc_row list \<Rightarrow> afc_row list)
    \<Rightarrow> afc_row frame \<Rightarrow> string option \<Rightarrow> error + element list" where
  "forecasting_by_year quicksort afc selected_medicine =
     (case df_med quicksort afc selected_medicine of
        Inl e \<Rightarrow> Inl e
      | Inr df \<Rightarrow>
          Inr [Title ''Medicine Forecasting by Year'',
               Markdown (''### Actual vs Forecast for: **''
                         @ (case selected_medicine of Some m \<Rightarrow> m | None \<Rightarrow> ''None'') @ ''**''),
               Plotly_chart (px_bar (rows df) afc_Year (\<lambda>r. num_cell (Value r))
                               (Some (\<lambda>r. text_cell (Type r))))])"

section \<open>Page 3: Department Usage\<close>

text \<open>Lines 151 to 155: summed dispenses per department, largest first.\<close>

definition dept_summary :: "((string \<times> int \<Rightarrow> int) \<Rightarrow> (string \<times> int) list \<Rightarrow> (string \<times> int) list)
    \<Rightarrow> med_row frame \<Rightarrow> (string \<times> int) list" where
  "dept_summary quicksort meds =
     sort_values quicksort (\<lambda>g. Some (snd g)) False
       (groupby_sum ENCOUNTERCLASS DISPENSES (rows meds))"

text \<open>
  Lines 166 to 170: summed dispenses per department and medicine. A sort on several
  columns is pandas' lexicographic sort, which is stable: rows that agree on both sort
  columns stay in the order of the grouping. Descending order of the sum is ascending
  order of its negation.
\<close>

definition dept_desc_key :: "med_row \<Rightarrow> (string \<times> string) option" where
  "dept_desc_key r =
     (case (ENCOUNTERCLASS r, DESCRIPTION r) of
        (Some e, Some d) \<Rightarrow> Some (e, d)
      | _ \<Rightarrow> None)"

definition top_by_dept :: "med_row frame \<Rightarrow> (string \<times> string \<times> int) list" where
  "top_by_dept meds =
     sort_key (\<lambda>(e, d, n). (e, - n))
       (map (\<lambda>((e, d), n). (e, d, n)) (groupby_sum dept_desc_key DISPENSES (rows meds)))"

definition dept_chart :: "(string \<times> int) list \<Rightarrow> element" where
  "dept_chart df = Plotly_chart (px_bar df (\<lambda>g. Text (fst g)) (\<lambda>g. Num (snd g)) None)"

definition department_usage ::
  "((string \<times> int \<Rightarrow> int) \<Rightarrow> (string \<times> int) list \<Rightarrow> (string \<times> int) list)
    \<Rightarrow> med_row frame \<Rightarrow> error + element list" where
  "department_usage quicksort meds =
     (if has_encounterclass meds then
        Inr [Title ''Medicine Usage by Department'',
             dept_chart (dept_summary quicksort meds),
             Markdown ''#### Top Medicines within Each Department (first 50 rows)'',
             Dataframe (take 50 (top_by_dept meds))]
      else
        Inr [Title ''Medicine Usage by Department'',
             Info ''ENCOUNTERCLASS column not found in medication_summary.csv''])"

section \<open>Page 4: Executive Summary\<close>

text \<open>Lines 197 to 202: the ten medicines with the largest summed cost.\<close>

definition cost_group :: "((string \<times> int \<Rightarrow> int) \<Rightarrow> (string \<times> int) list \<Rightarrow> (string \<times> int) list)
    \<Rightarrow> med_row frame \<Rightarrow> (string \<times> int) list" where
  "cost_group quicksort meds =
     take 10 (sort_values quicksort (\<lambda>g. Some (snd g)) False
                (groupby_sum DESCRIPTION TOTALCOST (rows meds)))"

text \<open>Lines 214 to 218: the page computes its own department summary.\<close>

definition exec_dept_summary ::
  "((string \<times> int \<Rightarrow> int) \<Rightarrow> (string \<times> int) list \<Rightarrow> (string \<times> int) list)
    \<Rightarrow> med_row frame \<Rightarrow> (string \<times> int) list" where
  "exec_dept_summary quicksort meds =
     sort_values quicksort (\<lambda>g. Some (snd g)) False
       (groupby_sum ENCOUNTERCLASS DISPENSES (rows meds))"

definition executive_summary ::
  "((string \<times> int \<Rightarrow> int) \<Rightarrow> (string \<times> int) list \<Rightarrow> (string \<times> int) list)
    \<Rightarrow> med_row frame \<Rightarrow> error + element list" where
  "executive_summary quicksort meds =
     Inr ([Title ''Executive Summary Dashboard'',
           Subheader ''Key Insights from Medicine Inventory and Usage Analysis'']
          @ metrics meds
          @ (if has_total_cost meds then
               [Markdown ''#### Top Costliest Medicines'',
                Plotly_chart (px_bar (cost_group quicksort meds)
                                (\<lambda>g. Num (snd g)) (\<lambda>g. Text (fst g)) None)]
             else [])
          @ (if has_encounterclass meds then
               [Markdown ''#### Medicine Usage by Department'',
                dept_chart (exec_dept_summary quicksort meds)]
             else [])
          @ [Markdown ''### Narrative Insights'',
             Narrative (int_cast (total_dispenses meds)) (unique_meds meds)])"

section \<open>The script\<close>

text \<open>
  One run of the script: load (line 35), then the page the sidebar selects (lines 55,
  99, 147, 178). The sorting routine is used at two row types, so it is passed twice.
\<close>

definition app ::
  "(cell list \<Rightarrow> error + (cell \<Rightarrow> timestamp option)) \<Rightarrow> (string \<Rightarrow> int option)
    \<Rightarrow> ((string \<times> int \<Rightarrow> int) \<Rightarrow> (string \<times> int) list \<Rightarrow> (string \<times> int) list)
    \<Rightarrow> ((afc_row \<Rightarrow> int) \<Rightarrow> afc_row list \<Rightarrow> afc_row list)
    \<Rightarrow> string \<Rightarrow> string option \<Rightarrow> world \<Rightarrow> (error + element list) \<times> world" where
  "app parse_datetime str_to_num quicksort quicksort_afc page selected_medicine w =
     (case load_data parse_datetime str_to_num w of
        (Inl e, w') \<Rightarrow> (Inl e, w')
      | (Inr (meds, afc), w') \<Rightarrow>
          (if page = ''Dashboard Overview'' then dashboard_overview quicksort meds
           else if page = ''Forecasting by Year''
                then forecasting_by_year quicksort_afc afc selected_medicine
           else if page = ''Department Usage'' then department_usage quicksort meds
           else if page = ''Executive Summary'' then executive_summary quicksort meds
           else Inr [], w'))"

section \<open>Example inputs\<close>

text \<open>
  Small inputs on which the theorems below are instantiated: a date parser and a number
  parser that know a few texts, a medication file with one row in range, one out of range
  and one whose month is not a date, and a forecast file.
\<close>

fun ex_parse_cell :: "cell \<Rightarrow> timestamp option" where
  "ex_parse_cell (Text s) =
     (if s = ''2021-03-01'' then Some (Timestamp 2021 3 1)
      else if s = ''2019-12-01'' then Some (Timestamp 2019 12 1)
      else None)"
| "ex_parse_cell c = None"

definition ex_parse_datetime :: "cell list \<Rightarrow> error + (cell \<Rightarrow> timestamp option)" where
  "ex_parse_datetime col =
     (if Text ''2021-03-01+02:00'' \<in> set col
      then Inl (ValueError ''Mixed timezones detected'')
      else Inr ex_parse_cell)"

definition ex_str_to_num :: "string \<Rightarrow> int option" where
  "ex_str_to_num s =
     (if s = ''2021'' then Some 2021 else if s = ''2030'' then Some 2030 else None)"

definition ex_med :: "string \<Rightarrow> string \<Rightarrow> int \<Rightarrow> string \<Rightarrow> med_row" where
  "ex_med d m n e =
     \<lparr>DESCRIPTION = Some d, DISPENSES = Some n, TOTALCOST = None, ENCOUNTERCLASS = Some e,
      Month = Text m, Year = None\<rparr>"

definition ex_meds :: "med_row frame" where
  "ex_meds =
     \<lparr>columns = [''DESCRIPTION'', ''Month'', ''DISPENSES'', ''ENCOUNTERCLASS''],
      rows = [ex_med ''Aspirin'' ''2021-03-01'' 10 ''ambulatory'',
              ex_med ''Aspirin'' ''2019-12-01'' 999 ''inpatient'',
              ex_med ''Ibuprofen'' ''soon'' 7 ''inpatient''],
      float64_columns = []\<rparr>"

definition ex_afc_row :: "string option \<Rightarrow> string \<Rightarrow> cell \<Rightarrow> int \<Rightarrow> afc_row" where
  "ex_afc_row m t y v = \<lparr>Medicine = m, Type = Some t, Value = Some v, afc_Year = y\<rparr>"

definition ex_afc :: "afc_row frame" where
  "ex_afc =
     \<lparr>columns = [''Medicine'', ''Year'', ''Type'', ''Value''],
      rows = [ex_afc_row (Some ''X'') ''Forecast'' (Num 2022) 6,
              ex_afc_row (Some ''X'') ''Actual'' (Text ''2021'') 5,
              ex_afc_row (Some ''X'') ''Forecast'' (Text ''2030'') 9,
              ex_afc_row (Some ''W'') ''Actual'' (Num 2021) 5,
              ex_afc_row (Some ''W'') ''Actual'' (Num 2022) 4,
              ex_afc_row None ''Actual'' (Num 2021) 1,
              ex_afc_row None ''Forecast'' (Num 2022) 2,
              ex_afc_row (Some ''X'') ''Actual'' (Text ''n/a'') 3],
      float64_columns = []\<rparr>"

definition ex_world :: world where
  "ex_world =
     \<lparr>medication_summary_csv = Some ex_meds,
      actual_forecast_combined_csv = Some ex_afc,
      cache_data = None\<rparr>"




definition ex_meds_wide :: "med_row frame" where
  "ex_meds_wide =
     \<lparr>columns = [''DESCRIPTION'', ''DISPENSES'', ''ENCOUNTERCLASS''],
      rows = map (\<lambda>i. ex_med [char_of (48 + i)] ''2021-03-01'' (int i) ''a'') [0..<51]
             @ [ex_med ''z'' ''2021-03-01'' 1000 ''b''],
      float64_columns = []\<rparr>"

text \<open>What loading makes of \<open>ex_meds\<close>: the one row in range, with its month parsed.\<close>

definition ex_meds_loaded :: "med_row frame" where
  "ex_meds_loaded =
     \<lparr>columns = [''DESCRIPTION'', ''Month'', ''DISPENSES'', ''ENCOUNTERCLASS'', ''Year''],
      rows = [(ex_med ''Aspirin'' ''2021-03-01'' 10 ''ambulatory'')
                \<lparr>Month := Stamp (Timestamp 2021 3 1), Year := Some 2021\<rparr>],
      float64_columns = []\<rparr>"

text \<open>A medication file whose months carry different UTC offsets.\<close>

definition ex_meds_offsets :: "med_row frame" where
  "ex_meds_offsets =
     \<lparr>columns = [''DESCRIPTION'', ''Month'', ''DISPENSES''],
      rows = [ex_med ''Aspirin'' ''2021-03-01+02:00'' 10 ''ambulatory'',
              ex_med ''Aspirin'' ''2021-03-01'' 5 ''ambulatory''],
      float64_columns = []\<rparr>"




section \<open>Lemmas about the pandas operations\<close>

lemma set_dropna: "set (dropna xs) = {x. Some x \<in> set xs}"
  by (induction xs rule: dropna.induct) auto

lemma sum_list_dropna:
  "sum_list (dropna xs) = (\<Sum>x\<leftarrow>xs. case x of None \<Rightarrow> 0 | Some n \<Rightarrow> (n::int))"
  by (induction xs rule: dropna.induct) auto

lemma dropna_map_filter:
  "dropna (map f (filter (\<lambda>r. f r \<noteq> None) xs)) = dropna (map f xs)"
  by (induction xs) (auto split: option.splits)

lemma sorts_sort_key: "sorts sort_key"
  by (simp add: sorts_def)

lemma sorts_mset: "sorts q \<Longrightarrow> mset (q key xs) = mset xs"
  by (simp add: sorts_def)



lemma mset_sort_values:
  assumes "sorts q"
  shows "mset (sort_values q col asc xs) = mset xs"
proof -
  have "mset (filter (\<lambda>x. col x \<noteq> None) xs) + mset (filter (\<lambda>x. col x = None) xs) = mset xs"
    by (induction xs) auto
  then show ?thesis
    using assms by (simp add: sort_values_def Let_def sorts_mset)
qed



lemma distinct_sort_values: "sorts q \<Longrightarrow> distinct (sort_values q col asc xs) = distinct xs"
  by (metis mset_sort_values mset_eq_imp_distinct_iff)


lemma set_group_keys: "set (group_keys key rs) = {k. \<exists>r\<in>set rs. key r = Some k}"
  by (force simp: group_keys_def set_dropna)

lemma distinct_group_keys: "distinct (group_keys key rs)"
  by (simp add: group_keys_def)

lemma sorted_group_keys: "sorted (group_keys key rs)"
  by (simp add: group_keys_def)

lemma nunique_card: "nunique xs = card {x. Some x \<in> set xs}"
  by (simp add: nunique_def length_remdups_card_conv set_dropna)

lemma series_sum_map:
  "series_sum (map val rs) = (\<Sum>r\<leftarrow>rs. case val r of None \<Rightarrow> 0 | Some n \<Rightarrow> n)"
  by (simp add: series_sum_def sum_list_dropna comp_def)

section \<open>Lemmas about loading\<close>

lemma map2_map_same: "map2 F xs (map h xs) = map (\<lambda>x. F x (h x)) xs"
  by (induction xs) auto


lemma load_meds_Inl:
  "load_meds pd meds = Inl e \<longleftrightarrow>
     ''Month'' \<in> set (columns meds) \<and> pd (map Month (rows meds)) = Inl e"
  by (auto simp: load_meds_def to_datetime_def Let_def split: sum.splits)

lemma load_meds_parsed:
  assumes "''Month'' \<in> set (columns meds)" and "pd (map Month (rows meds)) = Inr f"
  shows "load_meds pd meds =
     Inr (meds\<lparr>columns := set_column ''Year'' (columns meds),
               rows := map (\<lambda>r. r\<lparr>Month := (case f (Month r) of Some t \<Rightarrow> Stamp t | None \<Rightarrow> NaN),
                                   Year := map_option ts_year (f (Month r))\<rparr>)
                         (filter (\<lambda>r. case f (Month r) of
                                         None \<Rightarrow> False
                                       | Some t \<Rightarrow> 2020 \<le> ts_year t \<and> ts_year t \<le> 2025)
                            (rows meds))\<rparr>)"
proof -
  have conv: "dt_year (case f c of Some t \<Rightarrow> Stamp t | None \<Rightarrow> NaN) = map_option ts_year (f c)" for c
    by (simp split: option.splits)
  have keep: "(ge_opt (map_option ts_year (f c)) 2020 \<and> le_opt (map_option ts_year (f c)) 2025)
      = (case f c of None \<Rightarrow> False | Some t \<Rightarrow> 2020 \<le> ts_year t \<and> ts_year t \<le> 2025)" for c
    by (simp split: option.splits)
  show ?thesis
    using assms
    by (simp add: load_meds_def to_datetime_def Let_def map2_map_same filter_map comp_def conv keep)
qed

lemma rows_load_meds:
  assumes "''Month'' \<in> set (columns meds)" and "load_meds pd meds = Inr m"
  shows "\<exists>f. pd (map Month (rows meds)) = Inr f
     \<and> rows m =
         map (\<lambda>r. r\<lparr>Month := (case f (Month r) of Some t \<Rightarrow> Stamp t | None \<Rightarrow> NaN),
                   Year := map_option ts_year (f (Month r))\<rparr>)
           (filter (\<lambda>r. case f (Month r) of
                           None \<Rightarrow> False
                         | Some t \<Rightarrow> 2020 \<le> ts_year t \<and> ts_year t \<le> 2025)
              (rows meds))"
proof (cases "pd (map Month (rows meds))")
  case (Inl e)
  then have "load_meds pd meds = Inl e"
    using assms(1) by (simp add: load_meds_Inl)
  with assms(2) show ?thesis
    by simp
next
  case (Inr f)
  from load_meds_parsed [of meds pd f, OF assms(1) Inr] assms(2) Inr show ?thesis
    by auto
qed

lemma year_load_meds:
  assumes "''Month'' \<in> set (columns meds)" and "load_meds pd meds = Inr m"
    and "r \<in> set (rows m)"
  shows "\<exists>y. Year r = Some y \<and> dt_year (Month r) = Some y \<and> 2020 \<le> y \<and> y \<le> 2025"
proof -
  from rows_load_meds [OF assms(1,2)] obtain f where
    "rows m =
         map (\<lambda>r. r\<lparr>Month := (case f (Month r) of Some t \<Rightarrow> Stamp t | None \<Rightarrow> NaN),
                   Year := map_option ts_year (f (Month r))\<rparr>)
           (filter (\<lambda>r. case f (Month r) of
                           None \<Rightarrow> False
                         | Some t \<Rightarrow> 2020 \<le> ts_year t \<and> ts_year t \<le> 2025)
              (rows meds))"
    by blast
  with assms(3) show ?thesis
    by (auto split: option.splits)
qed


lemma rows_load_afc:
  assumes "''Year'' \<in> set (columns afc)"
  shows "rows (load_afc sn afc) =
     map (\<lambda>r. r\<lparr>afc_Year := to_numeric sn (afc_Year r)\<rparr>)
       (filter (\<lambda>r. case num_of (to_numeric sn (afc_Year r)) of
                       None \<Rightarrow> False
                     | Some y \<Rightarrow> 2020 \<le> y \<and> y \<le> 2025)
          (rows afc))"
proof -
  have keep: "(ge_opt v 2020 \<and> le_opt v 2025)
      = (case v of None \<Rightarrow> False | Some y \<Rightarrow> 2020 \<le> y \<and> y \<le> 2025)" for v
    by (simp split: option.splits)
  show ?thesis
    using assms
    by (simp add: load_afc_def Let_def filter_map comp_def keep)
qed

lemma num_of_Some: "num_of c = Some y \<longleftrightarrow> c = Num y"
  by (cases c) auto

lemma year_load_afc:
  assumes "''Year'' \<in> set (columns afc)" and "r \<in> set (rows (load_afc sn afc))"
  shows "\<exists>y. afc_Year r = Num y \<and> 2020 \<le> y \<and> y \<le> 2025"
  using assms(2) unfolding rows_load_afc [OF assms(1)]
  by (auto simp: num_of_Some split: option.splits)

lemma columns_load_afc: "columns (load_afc sn afc) = columns afc"
  by (simp add: load_afc_def Let_def)

lemma set_rows_meds_top: "set (rows (meds_top q meds)) \<subseteq> set (rows meds)"
  by (auto simp: meds_top_def)

lemma df_med_rows:
  assumes "sorts qa" and "df_med qa afc sel = Inr df"
  shows "mset (rows df) = mset (filter (\<lambda>r. eq_opt (Medicine r) sel) (rows afc))"
  using assms(2)
  by (auto simp: df_med_def Let_def mset_sort_values [OF assms(1)] split: if_splits)

lemma load_data_body_Inr:
  "load_data_body pd sn w = Inr (m', a') \<longleftrightarrow>
     (\<exists>fm fa. medication_summary_csv w = Some fm \<and> actual_forecast_combined_csv w = Some fa
        \<and> load_meds pd fm = Inr m' \<and> a' = load_afc sn fa)"
  by (auto simp: load_data_body_def read_csv_def split: option.splits sum.splits)

lemma load_data_loaded:
  assumes "load_data_body pd sn w = Inr (m', a')
        \<and> (cache_data w = None \<or> cache_data w = Some (m', a'))"
  shows "load_data pd sn w = (Inr (m', a'), w\<lparr>cache_data := Some (m', a')\<rparr>)"
proof (cases "cache_data w")
  case None
  with assms show ?thesis
    by (simp add: load_data_def)
next
  case (Some v)
  with assms have v: "v = (m', a')"
    by simp
  have "w\<lparr>cache_data := cache_data w\<rparr> = w"
    by simp
  with Some v show ?thesis
    by (simp add: load_data_def)
qed

lemma app_loaded:
  assumes "load_data_body pd sn w = Inr (m', a')
        \<and> (cache_data w = None \<or> cache_data w = Some (m', a'))"
  shows "app pd sn q qa page sel w =
          (if page = ''Dashboard Overview'' then dashboard_overview q m'
           else if page = ''Forecasting by Year'' then forecasting_by_year qa a' sel
           else if page = ''Department Usage'' then department_usage q m'
           else if page = ''Executive Summary'' then executive_summary q m'
           else Inr [],
           w\<lparr>cache_data := Some (m', a')\<rparr>)"
  by (simp only: app_def load_data_loaded [OF assms] prod.case sum.case)

lemma ex_load_meds: "load_meds ex_parse_datetime ex_meds = Inr ex_meds_loaded"
  by (simp add: load_meds_def to_datetime_def Let_def set_column_def ex_parse_datetime_def
      ex_meds_def ex_med_def ex_meds_loaded_def)

lemma ex_load_meds_offsets:
  "load_meds ex_parse_datetime ex_meds_offsets = Inl (ValueError ''Mixed timezones detected'')"
  by (simp add: load_meds_def to_datetime_def ex_parse_datetime_def ex_meds_offsets_def
      ex_med_def)

lemma ex_load_data_body:
  "load_data_body ex_parse_datetime ex_str_to_num ex_world
     = Inr (ex_meds_loaded, load_afc ex_str_to_num ex_afc)"
  by (simp add: load_data_body_def read_csv_def ex_world_def ex_load_meds)

lemma ex_department_usage_loaded:
  "department_usage sort_key ex_meds_loaded =
     Inr [Title ''Medicine Usage by Department'',
          Plotly_chart [Bar (Text ''ambulatory'') (Num 10) None],
          Markdown ''#### Top Medicines within Each Department (first 50 rows)'',
          Dataframe [(''ambulatory'', ''Aspirin'', 10)]]"
  by (simp add: department_usage_def has_encounterclass_def dept_chart_def px_bar_def
      dept_summary_def top_by_dept_def sort_values_def groupby_sum_def group_keys_def
      group_rows_def series_sum_def dept_desc_key_def ex_meds_loaded_def ex_med_def)





section \<open>Lemmas about the medicine list\<close>

lemma dropna_map_Some: "dropna (map Some xs) = xs"
  by (induction xs) auto

lemma dropna_map_Some_fst:
  "dropna (map fst (filter (\<lambda>(m, n). P n) (map (\<lambda>(m, n). (Some m, n)) xs)))
     = map fst (filter (\<lambda>(m, n). P n) xs)"
  by (induction xs) auto

lemma nunique_group:
  "nunique (map val (group_rows key k rs))
     = card {v. \<exists>r \<in> set rs. key r = Some k \<and> val r = Some v}"
proof -
  have "{x. Some x \<in> set (map val (group_rows key k rs))}
      = {v. \<exists>r \<in> set rs. key r = Some k \<and> val r = Some v}"
    by (force simp: group_rows_def)
  then show ?thesis
    by (simp only: nunique_card)
qed

lemma finite_group_values: "finite {v. \<exists>r \<in> set rs. key r = Some k \<and> val r = Some v}"
proof -
  have "{v. \<exists>r \<in> set rs. key r = Some k \<and> val r = Some v} \<subseteq> the ` val ` set rs"
    by force
  then show ?thesis
    by (rule finite_subset) simp
qed

lemma dropna_valid_meds:
  "dropna (valid_meds afc)
     = map fst (filter (\<lambda>(m, n). 2 \<le> n) (groupby_nunique Medicine Type (rows afc)))"
  by (simp add: valid_meds_def type_counts_def dropna_map_Some_fst)

lemma set_med_list:
  "set (med_list afc)
     = {m. 2 \<le> card {t. \<exists>r \<in> set (rows afc). Medicine r = Some m \<and> Type r = Some t}}"
proof -
  have "set (med_list afc)
      = {m \<in> set (group_keys Medicine (rows afc)).
           2 \<le> card {t. \<exists>r \<in> set (rows afc). Medicine r = Some m \<and> Type r = Some t}}"
    by (force simp: med_list_def dropna_valid_meds groupby_nunique_def nunique_group)
  also have "\<dots> = {m. 2 \<le> card {t. \<exists>r \<in> set (rows afc). Medicine r = Some m \<and> Type r = Some t}}"
  proof -
    have "m \<in> set (group_keys Medicine (rows afc))"
      if "2 \<le> card {t. \<exists>r \<in> set (rows afc). Medicine r = Some m \<and> Type r = Some t}" for m
    proof -
      have "{t. \<exists>r \<in> set (rows afc). Medicine r = Some m \<and> Type r = Some t} \<noteq> {}"
      proof
        assume "{t. \<exists>r \<in> set (rows afc). Medicine r = Some m \<and> Type r = Some t} = {}"
        then have "card {t. \<exists>r \<in> set (rows afc). Medicine r = Some m \<and> Type r = Some t} = 0"
          by (simp only: card.empty)
        with that show False
          by simp
      qed
      then show ?thesis
        by (auto simp: set_group_keys)
    qed
    then show ?thesis
      by blast
  qed
  finally show ?thesis .
qed

lemma loaded_types_subset:
  "{t. \<exists>r \<in> set (rows (load_afc sn afc)). Medicine r = Some m \<and> Type r = Some t}
     \<subseteq> {t. \<exists>r \<in> set (rows afc). Medicine r = Some m \<and> Type r = Some t}"
  by (cases "''Year'' \<in> set (columns afc)") (auto simp: load_afc_def Let_def)

lemma groupby_nunique_notna:
  "groupby_nunique key val (filter (\<lambda>r. key r \<noteq> None) rs) = groupby_nunique key val rs"
proof -
  have k: "group_keys key (filter (\<lambda>r. key r \<noteq> None) rs) = group_keys key rs"
    unfolding group_keys_def by (simp only: dropna_map_filter)
  have g: "group_rows key k (filter (\<lambda>r. key r \<noteq> None) rs) = group_rows key k rs" for k
    unfolding group_rows_def by (induction rs) auto
  show ?thesis
    unfolding groupby_nunique_def by (simp only: k g)
qed

lemma ex_med_list: "med_list ex_afc = [''X'']"
  by (simp add: med_list_def valid_meds_def type_counts_def groupby_nunique_def group_keys_def
      group_rows_def nunique_def ex_afc_def ex_afc_row_def)

lemma ex_med_list_loaded: "med_list (load_afc ex_str_to_num ex_afc) = [''X'']"
  by (simp add: med_list_def valid_meds_def type_counts_def groupby_nunique_def group_keys_def
      group_rows_def nunique_def load_afc_def Let_def ex_afc_def ex_afc_row_def ex_str_to_num_def)

section \<open>Lemmas about the forecast page\<close>



lemma df_med_no_Year:
  "''Year'' \<notin> set (columns afc) \<Longrightarrow> df_med qa afc sel = Inl (KeyError ''Year'')"
  by (simp add: df_med_def Let_def)




section \<open>Lemmas about grouped sums and the top medicines\<close>

lemma map_fst_groupby_sum: "map fst (groupby_sum key val rs) = group_keys key rs"
  by (simp add: groupby_sum_def comp_def)

lemma groupby_sum_mem:
  "(k, n) \<in> set (groupby_sum key val rs) \<longleftrightarrow>
     (\<exists>r \<in> set rs. key r = Some k)
     \<and> n = (\<Sum>r\<leftarrow>filter (\<lambda>r. key r = Some k) rs. case val r of None \<Rightarrow> 0 | Some v \<Rightarrow> v)"
proof -
  have "(k, n) \<in> set (groupby_sum key val rs) \<longleftrightarrow>
      k \<in> set (group_keys key rs) \<and> n = series_sum (map val (group_rows key k rs))"
    by (auto simp: groupby_sum_def)
  then show ?thesis
    by (simp add: set_group_keys series_sum_map group_rows_def)
qed

lemma distinct_map_fst_groupby_sum: "distinct (map fst (groupby_sum key val rs))"
  by (simp only: map_fst_groupby_sum distinct_group_keys)








section \<open>Lemmas about the department table\<close>

lemma dept_desc_key_Some:
  "dept_desc_key r = Some (e, d) \<longleftrightarrow> ENCOUNTERCLASS r = Some e \<and> DESCRIPTION r = Some d"
  by (auto simp: dept_desc_key_def split: option.splits)

lemma sorted_top_by_dept:
  "sorted_wrt (\<lambda>(e1, d1, n1) (e2, d2, n2). e1 < e2 \<or> (e1 = e2 \<and> n2 \<le> n1)) (top_by_dept meds)"
proof -
  let ?key = "\<lambda>(e, d, n). (e :: string, - (n :: int))"
  let ?xs = "map (\<lambda>((e, d), n). (e, d, n)) (groupby_sum dept_desc_key DISPENSES (rows meds))"
  have "sorted (map ?key (sort_key ?key ?xs))"
    by (rule sorted_sort_key)
  then have "sorted_wrt (\<lambda>a b. ?key a \<le> ?key b) (top_by_dept meds)"
    by (simp only: sorted_map top_by_dept_def)
  then show ?thesis
  proof (rule sorted_wrt_mono_rel [rotated])
    fix a b :: "string \<times> string \<times> int"
    assume "?key a \<le> ?key b"
    then show "(case a of (e1, d1, n1) \<Rightarrow> \<lambda>(e2, d2, n2). e1 < e2 \<or> (e1 = e2 \<and> n2 \<le> n1)) b"
      by (cases a; cases b) (auto simp: less_eq_prod_def)
  qed
qed

lemma set_top_by_dept:
  "set (top_by_dept meds) =
     {(e, d, n). (\<exists>r \<in> set (rows meds). ENCOUNTERCLASS r = Some e \<and> DESCRIPTION r = Some d)
        \<and> n = (\<Sum>r\<leftarrow>filter (\<lambda>r. ENCOUNTERCLASS r = Some e \<and> DESCRIPTION r = Some d) (rows meds).
                 case DISPENSES r of None \<Rightarrow> 0 | Some v \<Rightarrow> v)}"
proof -
  have "(e, d, n) \<in> set (top_by_dept meds) \<longleftrightarrow>
      ((e, d), n) \<in> set (groupby_sum dept_desc_key DISPENSES (rows meds))" for e d n
    by (force simp: top_by_dept_def)
  then have "(e, d, n) \<in> set (top_by_dept meds) \<longleftrightarrow>
      (\<exists>r \<in> set (rows meds). ENCOUNTERCLASS r = Some e \<and> DESCRIPTION r = Some d)
        \<and> n = (\<Sum>r\<leftarrow>filter (\<lambda>r. ENCOUNTERCLASS r = Some e \<and> DESCRIPTION r = Some d) (rows meds).
                 case DISPENSES r of None \<Rightarrow> 0 | Some v \<Rightarrow> v)" for e d n
    by (simp add: groupby_sum_mem dept_desc_key_Some)
  then show ?thesis
    by auto
qed

lemma distinct_top_by_dept: "distinct (map (\<lambda>(e, d, n). (e, d)) (top_by_dept meds))"
proof -
  let ?key = "\<lambda>(e, d, n). (e :: string, - (n :: int))"
  let ?G = "groupby_sum dept_desc_key DISPENSES (rows meds)"
  let ?xs = "map (\<lambda>((e, d), n). (e, d, n)) ?G"
  have "map (\<lambda>(e, d, n). (e, d)) ?xs = map fst ?G"
    by (simp add: comp_def case_prod_beta)
  then have "distinct (map (\<lambda>(e, d, n). (e, d)) ?xs)"
    by (simp only: distinct_map_fst_groupby_sum)
  moreover have "mset (map (\<lambda>(e, d, n). (e, d)) (sort_key ?key ?xs))
      = mset (map (\<lambda>(e, d, n). (e, d)) ?xs)"
    by (simp only: mset_map mset_sort)
  ultimately show ?thesis
    unfolding top_by_dept_def by (metis mset_eq_imp_distinct_iff)
qed

lemma run_nonincreasing:
  fixes xs :: "(string \<times> string \<times> int) list"
  assumes "sorted_wrt (\<lambda>(e1, d1, n1) (e2, d2, n2). e1 < e2 \<or> (e1 = e2 \<and> n2 \<le> n1)) xs"
    and "i < j" and "j < length xs" and "fst (xs ! i) = fst (xs ! j)"
  shows "snd (snd (xs ! j)) \<le> snd (snd (xs ! i))"
proof -
  have "(case xs ! i of (e1, d1, n1) \<Rightarrow> \<lambda>(e2, d2, n2). e1 < e2 \<or> (e1 = e2 \<and> n2 \<le> n1)) (xs ! j)"
    using assms(1,2,3) by (simp add: sorted_wrt_iff_nth_less)
  then show ?thesis
    using assms(4) by (cases "xs ! i"; cases "xs ! j") auto
qed

lemma ex_top_by_dept:
  "top_by_dept ex_meds =
     [(''ambulatory'', ''Aspirin'', 10), (''inpatient'', ''Aspirin'', 999),
      (''inpatient'', ''Ibuprofen'', 7)]"
  by (simp add: top_by_dept_def groupby_sum_def group_keys_def group_rows_def series_sum_def
      dept_desc_key_def ex_meds_def ex_med_def)

lemma ex_wide_depts: "map fst (top_by_dept ex_meds_wide) = replicate 51 ''a'' @ [''b'']"
  by code_simp

section \<open>The claims\<close>

text \<open>
  C1. When the medication file has a \<^verbatim>\<open>Month\<close> column and the load returns, the loaded
  rows are exactly the source rows whose month parses to a timestamp with
  2020 \<le> year \<le> 2025 (with \<^verbatim>\<open>Month\<close> parsed and \<^verbatim>\<open>Year\<close> set): a row whose month does
  not parse, or whose year is outside the range, is dropped, and every loaded row has a
  year in the range. When the forecast file has a \<^verbatim>\<open>Year\<close> column the same holds for
  it: the loaded rows are the source rows whose year coerces to a number in the range, a
  non-numeric year being missing. What \<^verbatim>\<open>load_data\<close> returns is these two frames, and one
  run of the script shows the selected page computed from these two frames and from
  nothing else, so a dropped row is in no view; in particular every row behind the trend
  chart and behind the forecast chart has a year in the range. The load of the medication
  file fails only where the parser fails for the whole column; a single month that does
  not parse only drops its row.
\<close>

theorem C1_year_range_filter:
  "(''Month'' \<in> set (columns meds) \<and> load_meds pd meds = Inr m \<longrightarrow>
        (\<exists>f. pd (map Month (rows meds)) = Inr f
           \<and> rows m =
               map (\<lambda>r. r\<lparr>Month := (case f (Month r) of Some t \<Rightarrow> Stamp t | None \<Rightarrow> NaN),
                         Year := map_option ts_year (f (Month r))\<rparr>)
                 (filter (\<lambda>r. case f (Month r) of
                                 None \<Rightarrow> False
                               | Some t \<Rightarrow> 2020 \<le> ts_year t \<and> ts_year t \<le> 2025)
                    (rows meds)))
      \<and> (\<forall>r \<in> set (rows m).
            \<exists>y. Year r = Some y \<and> dt_year (Month r) = Some y \<and> 2020 \<le> y \<and> y \<le> 2025)
      \<and> (\<forall>r \<in> set (rows (meds_top q m)).
            \<exists>y. Year r = Some y \<and> 2020 \<le> y \<and> y \<le> 2025))
   \<and> (''Year'' \<in> set (columns afc) \<longrightarrow>
        rows (load_afc sn afc) =
          map (\<lambda>r. r\<lparr>afc_Year := to_numeric sn (afc_Year r)\<rparr>)
            (filter (\<lambda>r. case num_of (to_numeric sn (afc_Year r)) of
                            None \<Rightarrow> False
                          | Some y \<Rightarrow> 2020 \<le> y \<and> y \<le> 2025)
               (rows afc))
      \<and> (\<forall>r \<in> set (rows (load_afc sn afc)).
            \<exists>y. afc_Year r = Num y \<and> 2020 \<le> y \<and> y \<le> 2025)
      \<and> (sorts qa \<longrightarrow>
            (\<exists>df. df_med qa (load_afc sn afc) sel = Inr df
               \<and> (\<forall>r \<in> set (rows df). \<exists>y. afc_Year r = Num y \<and> 2020 \<le> y \<and> y \<le> 2025))))
   \<and> (load_data_body pd sn w = Inr (m', a') \<longleftrightarrow>
        (\<exists>fm fa. medication_summary_csv w = Some fm \<and> actual_forecast_combined_csv w = Some fa
           \<and> load_meds pd fm = Inr m' \<and> a' = load_afc sn fa))
   \<and> (load_data_body pd sn w = Inr (m', a')
        \<and> (cache_data w = None \<or> cache_data w = Some (m', a')) \<longrightarrow>
        app pd sn q qa page sel w =
          (if page = ''Dashboard Overview'' then dashboard_overview q m'
           else if page = ''Forecasting by Year'' then forecasting_by_year qa a' sel
           else if page = ''Department Usage'' then department_usage q m'
           else if page = ''Executive Summary'' then executive_summary q m'
           else Inr [],
           w\<lparr>cache_data := Some (m', a')\<rparr>))
   \<and> (load_meds pd meds = Inl e \<longleftrightarrow>
        ''Month'' \<in> set (columns meds) \<and> pd (map Month (rows meds)) = Inl e)"
proof (intro conjI impI)
  assume a: "''Month'' \<in> set (columns meds) \<and> load_meds pd meds = Inr m"
  then have mo: "''Month'' \<in> set (columns meds)" and l: "load_meds pd meds = Inr m"
    by simp_all
  show "\<exists>f. pd (map Month (rows meds)) = Inr f
           \<and> rows m =
               map (\<lambda>r. r\<lparr>Month := (case f (Month r) of Some t \<Rightarrow> Stamp t | None \<Rightarrow> NaN),
                         Year := map_option ts_year (f (Month r))\<rparr>)
                 (filter (\<lambda>r. case f (Month r) of
                                 None \<Rightarrow> False
                               | Some t \<Rightarrow> 2020 \<le> ts_year t \<and> ts_year t \<le> 2025)
                    (rows meds))"
    by (rule rows_load_meds [OF mo l])
  show "\<forall>r \<in> set (rows m).
          \<exists>y. Year r = Some y \<and> dt_year (Month r) = Some y \<and> 2020 \<le> y \<and> y \<le> 2025"
    using year_load_meds [OF mo l] by blast
  show "\<forall>r \<in> set (rows (meds_top q m)).
          \<exists>y. Year r = Some y \<and> 2020 \<le> y \<and> y \<le> 2025"
    using year_load_meds [OF mo l] set_rows_meds_top by blast
next
  assume y: "''Year'' \<in> set (columns afc)"
  show "rows (load_afc sn afc) =
          map (\<lambda>r. r\<lparr>afc_Year := to_numeric sn (afc_Year r)\<rparr>)
            (filter (\<lambda>r. case num_of (to_numeric sn (afc_Year r)) of
                            None \<Rightarrow> False
                          | Some y \<Rightarrow> 2020 \<le> y \<and> y \<le> 2025)
               (rows afc))"
    by (rule rows_load_afc [OF y])
  show "\<forall>r \<in> set (rows (load_afc sn afc)).
          \<exists>y. afc_Year r = Num y \<and> 2020 \<le> y \<and> y \<le> 2025"
    using year_load_afc [OF y] by blast
  assume s: "sorts qa"
  have c: "''Year'' \<in> set (columns (load_afc sn afc))"
    using y by (simp add: columns_load_afc)
  obtain df where df: "df_med qa (load_afc sn afc) sel = Inr df"
    using c by (simp add: df_med_def Let_def)
  have "set (rows df) \<subseteq> set (rows (load_afc sn afc))"
    using df_med_rows [OF s df] by (metis filter_is_subset set_mset_mset)
  then have "\<forall>r \<in> set (rows df). \<exists>y. afc_Year r = Num y \<and> 2020 \<le> y \<and> y \<le> 2025"
    using year_load_afc [OF y] by blast
  with df show "\<exists>df. df_med qa (load_afc sn afc) sel = Inr df
               \<and> (\<forall>r \<in> set (rows df). \<exists>y. afc_Year r = Num y \<and> 2020 \<le> y \<and> y \<le> 2025)"
    by blast
next
  show "load_data_body pd sn w = Inr (m', a') \<longleftrightarrow>
        (\<exists>fm fa. medication_summary_csv w = Some fm \<and> actual_forecast_combined_csv w = Some fa
           \<and> load_meds pd fm = Inr m' \<and> a' = load_afc sn fa)"
    by (rule load_data_body_Inr)
next
  assume "load_data_body pd sn w = Inr (m', a')
        \<and> (cache_data w = None \<or> cache_data w = Some (m', a'))"
  then show "app pd sn q qa page sel w =
          (if page = ''Dashboard Overview'' then dashboard_overview q m'
           else if page = ''Forecasting by Year'' then forecasting_by_year qa a' sel
           else if page = ''Department Usage'' then department_usage q m'
           else if page = ''Executive Summary'' then executive_summary q m'
           else Inr [],
           w\<lparr>cache_data := Some (m', a')\<rparr>)"
    by (rule app_loaded)
next
  show "load_meds pd meds = Inl e \<longleftrightarrow>
        ''Month'' \<in> set (columns meds) \<and> pd (map Month (rows meds)) = Inl e"
    by (rule load_meds_Inl)
qed

theorem C1_year_range_filter_witness:
  "''Month'' \<in> set (columns ex_meds)
   \<and> load_meds ex_parse_datetime ex_meds = Inr ex_meds_loaded
   \<and> rows ex_meds_loaded =
       [(ex_med ''Aspirin'' ''2021-03-01'' 10 ''ambulatory'')
          \<lparr>Month := Stamp (Timestamp 2021 3 1), Year := Some 2021\<rparr>]
   \<and> ''Year'' \<in> set (columns ex_afc)
   \<and> map afc_Year (rows (load_afc ex_str_to_num ex_afc)) =
       [Num 2022, Num 2021, Num 2021, Num 2022, Num 2021, Num 2022]
   \<and> sorts (sort_key :: (afc_row \<Rightarrow> int) \<Rightarrow> afc_row list \<Rightarrow> afc_row list)
   \<and> load_data_body ex_parse_datetime ex_str_to_num ex_world
       = Inr (ex_meds_loaded, load_afc ex_str_to_num ex_afc)
   \<and> cache_data ex_world = None
   \<and> fst (app ex_parse_datetime ex_str_to_num sort_key sort_key ''Department Usage'' None ex_world) =
       Inr [Title ''Medicine Usage by Department'',
            Plotly_chart [Bar (Text ''ambulatory'') (Num 10) None],
            Markdown ''#### Top Medicines within Each Department (first 50 rows)'',
            Dataframe [(''ambulatory'', ''Aspirin'', 10)]]
   \<and> load_meds ex_parse_datetime ex_meds_offsets = Inl (ValueError ''Mixed timezones detected'')"
proof -
  note t = C1_year_range_filter [where meds = ex_meds and pd = ex_parse_datetime
      and m = ex_meds_loaded and q = sort_key and afc = ex_afc and sn = ex_str_to_num
      and qa = sort_key and sel = None and w = ex_world and m' = ex_meds_loaded
      and a' = "load_afc ex_str_to_num ex_afc" and page = "''Department Usage''"]
  have mo: "''Month'' \<in> set (columns ex_meds)"
    by (simp add: ex_meds_def)
  have ye: "''Year'' \<in> set (columns ex_afc)"
    by (simp add: ex_afc_def)
  have af: "map afc_Year (rows (load_afc ex_str_to_num ex_afc)) =
       [Num 2022, Num 2021, Num 2021, Num 2022, Num 2021, Num 2022]"
    by (simp add: load_afc_def Let_def ex_afc_def ex_afc_row_def ex_str_to_num_def)
  have so: "sorts (sort_key :: (afc_row \<Rightarrow> int) \<Rightarrow> afc_row list \<Rightarrow> afc_row list)"
    by (rule sorts_sort_key)
  have ca: "cache_data ex_world = None"
    by (simp add: ex_world_def)
  have "app ex_parse_datetime ex_str_to_num sort_key sort_key ''Department Usage'' None ex_world =
          (department_usage sort_key ex_meds_loaded,
           ex_world\<lparr>cache_data := Some (ex_meds_loaded, load_afc ex_str_to_num ex_afc)\<rparr>)"
    using t [THEN conjunct2, THEN conjunct2, THEN conjunct2, THEN conjunct1]
      ex_load_data_body ca
    by simp
  then have ap: "fst (app ex_parse_datetime ex_str_to_num sort_key sort_key ''Department Usage'' None
        ex_world) =
       Inr [Title ''Medicine Usage by Department'',
            Plotly_chart [Bar (Text ''ambulatory'') (Num 10) None],
            Markdown ''#### Top Medicines within Each Department (first 50 rows)'',
            Dataframe [(''ambulatory'', ''Aspirin'', 10)]]"
    by (simp add: ex_department_usage_loaded)
  have ro: "rows ex_meds_loaded =
       [(ex_med ''Aspirin'' ''2021-03-01'' 10 ''ambulatory'')
          \<lparr>Month := Stamp (Timestamp 2021 3 1), Year := Some 2021\<rparr>]"
    by (simp add: ex_meds_loaded_def)
  from mo ex_load_meds ro ye af so ex_load_data_body ca ap ex_load_meds_offsets show ?thesis
    by (intro conjI)
qed




text \<open>
  C8. Two calls of \<^verbatim>\<open>load_data\<close> in a row return the same value, frames or error; the
  calls leave both files as they were, and the second call changes nothing at all. From an
  empty cache the value is that of the body, and the body computes the same value before
  and after, as it reads only the files.
\<close>

theorem C8_load_data_idempotent:
  "load_data pd sn w = (r1, w1) \<and> load_data pd sn w1 = (r2, w2) \<longrightarrow>
     r2 = r1
     \<and> w2 = w1
     \<and> medication_summary_csv w1 = medication_summary_csv w
     \<and> actual_forecast_combined_csv w1 = actual_forecast_combined_csv w
     \<and> (cache_data w = None \<longrightarrow> r1 = load_data_body pd sn w)
     \<and> load_data_body pd sn w1 = load_data_body pd sn w"
proof (intro impI)
  assume a: "load_data pd sn w = (r1, w1) \<and> load_data pd sn w1 = (r2, w2)"
  have body: "load_data_body pd sn (w\<lparr>cache_data := c\<rparr>) = load_data_body pd sn w" for c
    by (simp add: load_data_body_def split: sum.splits)
  show "r2 = r1
     \<and> w2 = w1
     \<and> medication_summary_csv w1 = medication_summary_csv w
     \<and> actual_forecast_combined_csv w1 = actual_forecast_combined_csv w
     \<and> (cache_data w = None \<longrightarrow> r1 = load_data_body pd sn w)
     \<and> load_data_body pd sn w1 = load_data_body pd sn w"
  proof (cases "cache_data w")
    case (Some v)
    with a show ?thesis
      by (auto simp: load_data_def)
  next
    case None
    show ?thesis
    proof (cases "load_data_body pd sn w")
      case (Inl e)
      with None a have 1: "r1 = Inl e" and w1: "w1 = w"
        by (auto simp: load_data_def)
      with None Inl a have "r2 = Inl e" and "w2 = w"
        by (auto simp: load_data_def)
      with 1 w1 Inl show ?thesis
        by simp
    next
      case (Inr v)
      with None a have "r1 = Inr v" and w1: "w1 = w\<lparr>cache_data := Some v\<rparr>"
        by (auto simp: load_data_def)
      with a have "r2 = Inr v" and "w2 = w1"
        by (auto simp: load_data_def)
      with \<open>r1 = Inr v\<close> w1 Inr show ?thesis
        by (simp add: body)
    qed
  qed
qed

theorem C8_load_data_idempotent_witness:
  "fst (load_data ex_parse_datetime ex_str_to_num ex_world)
     = Inr (ex_meds_loaded, load_afc ex_str_to_num ex_afc)
   \<and> fst (load_data ex_parse_datetime ex_str_to_num
            (snd (load_data ex_parse_datetime ex_str_to_num ex_world)))
     = Inr (ex_meds_loaded, load_afc ex_str_to_num ex_afc)
   \<and> medication_summary_csv (snd (load_data ex_parse_datetime ex_str_to_num ex_world)) = Some ex_meds"
proof -
  have b: "load_data_body ex_parse_datetime ex_str_to_num ex_world
      = Inr (ex_meds_loaded, load_afc ex_str_to_num ex_afc)"
    by (rule ex_load_data_body)
  have c: "cache_data ex_world = None"
    by (simp add: ex_world_def)
  have m: "medication_summary_csv ex_world = Some ex_meds"
    by (simp add: ex_world_def)
  obtain r1 w1 where 1: "load_data ex_parse_datetime ex_str_to_num ex_world = (r1, w1)"
    by (cases "load_data ex_parse_datetime ex_str_to_num ex_world")
  obtain r2 w2 where 2: "load_data ex_parse_datetime ex_str_to_num w1 = (r2, w2)"
    by (cases "load_data ex_parse_datetime ex_str_to_num w1")
  show ?thesis
    using C8_load_data_idempotent [of ex_parse_datetime ex_str_to_num ex_world r1 w1 r2 w2]
      1 2 b c m
    by simp
qed

text \<open>
  C2. The list offered by the select box holds exactly the medicines with at least two
  distinct types among their rows in the frame the page is given (the loaded one); it is
  sorted ascending and has no duplicates. A medicine with one type only, in however many
  rows, is not in it. Loading only removes rows, so a medicine in the list of the loaded
  frame also has at least two distinct types in the source file.
\<close>

theorem C2_med_list_eligible:
  "set (med_list afc)
     = {m. 2 \<le> card {t. \<exists>r \<in> set (rows afc). Medicine r = Some m \<and> Type r = Some t}}
   \<and> sorted (med_list afc)
   \<and> distinct (med_list afc)
   \<and> (\<forall>m \<in> set (med_list (load_afc sn afc)).
         2 \<le> card {t. \<exists>r \<in> set (rows afc). Medicine r = Some m \<and> Type r = Some t})"
proof (intro conjI ballI)
  show "set (med_list afc)
     = {m. 2 \<le> card {t. \<exists>r \<in> set (rows afc). Medicine r = Some m \<and> Type r = Some t}}"
    by (rule set_med_list)
  show "sorted (med_list afc)"
    by (simp add: med_list_def)
  show "distinct (med_list afc)"
    by (simp add: med_list_def)
next
  fix m
  assume "m \<in> set (med_list (load_afc sn afc))"
  then have "2 \<le> card {t. \<exists>r \<in> set (rows (load_afc sn afc)). Medicine r = Some m \<and> Type r = Some t}"
    by (simp add: set_med_list)
  also have "\<dots> \<le> card {t. \<exists>r \<in> set (rows afc). Medicine r = Some m \<and> Type r = Some t}"
    by (rule card_mono [OF finite_group_values loaded_types_subset])
  finally show "2 \<le> card {t. \<exists>r \<in> set (rows afc). Medicine r = Some m \<and> Type r = Some t}" .
qed

theorem C2_med_list_eligible_witness:
  "med_list ex_afc = [''X'']
   \<and> 2 \<le> card {t. \<exists>r \<in> set (rows ex_afc). Medicine r = Some ''X'' \<and> Type r = Some t}
   \<and> \<not> 2 \<le> card {t. \<exists>r \<in> set (rows ex_afc). Medicine r = Some ''W'' \<and> Type r = Some t}
   \<and> med_list (load_afc ex_str_to_num ex_afc) = [''X'']"
proof -
  have eq: "set (med_list ex_afc)
     = {m. 2 \<le> card {t. \<exists>r \<in> set (rows ex_afc). Medicine r = Some m \<and> Type r = Some t}}"
    using C2_med_list_eligible [of ex_afc ex_str_to_num] by (rule conjunct1)
  have "''X'' \<in> set (med_list ex_afc)"
    by (simp add: ex_med_list)
  then have x: "2 \<le> card {t. \<exists>r \<in> set (rows ex_afc). Medicine r = Some ''X'' \<and> Type r = Some t}"
    unfolding eq by (rule CollectD)
  have "''W'' \<notin> set (med_list ex_afc)"
    by (simp add: ex_med_list)
  then have w: "\<not> 2 \<le> card {t. \<exists>r \<in> set (rows ex_afc). Medicine r = Some ''W'' \<and> Type r = Some t}"
    unfolding eq by (simp only: mem_Collect_eq not_False_eq_True)
  from x w ex_med_list ex_med_list_loaded show ?thesis
    by (intro conjI)
qed

text \<open>
  C10. Rows with a missing medicine name contribute nothing to the list: it is the list
  of the frame without those rows, whatever types they carry. The grouping leaves no
  missing name in \<^verbatim>\<open>valid_meds\<close>, and every name in the list is the name of a row.
\<close>

theorem C10_med_list_no_missing_name:
  "med_list afc = med_list (afc\<lparr>rows := filter (\<lambda>r. Medicine r \<noteq> None) (rows afc)\<rparr>)
   \<and> None \<notin> set (valid_meds afc)
   \<and> (\<forall>m \<in> set (med_list afc). \<exists>r \<in> set (rows afc). Medicine r = Some m)"
proof (intro conjI ballI)
  show "med_list afc = med_list (afc\<lparr>rows := filter (\<lambda>r. Medicine r \<noteq> None) (rows afc)\<rparr>)"
    by (simp add: med_list_def valid_meds_def type_counts_def groupby_nunique_notna
        del: not_None_eq)
  show "None \<notin> set (valid_meds afc)"
    by (auto simp: valid_meds_def type_counts_def)
next
  fix m
  assume "m \<in> set (med_list afc)"
  then have "m \<in> set (group_keys Medicine (rows afc))"
    by (auto simp: med_list_def dropna_valid_meds groupby_nunique_def)
  then show "\<exists>r \<in> set (rows afc). Medicine r = Some m"
    by (simp add: set_group_keys)
qed

theorem C10_med_list_no_missing_name_witness:
  "med_list ex_afc = [''X'']
   \<and> med_list (ex_afc\<lparr>rows := filter (\<lambda>r. Medicine r \<noteq> None) (rows ex_afc)\<rparr>) = [''X'']
   \<and> nunique (map Type (filter (\<lambda>r. Medicine r = None) (rows ex_afc))) = 2"
proof -
  have n: "nunique (map Type (filter (\<lambda>r. Medicine r = None) (rows ex_afc))) = 2"
    by (simp add: nunique_def ex_afc_def ex_afc_row_def)
  have "med_list ex_afc
      = med_list (ex_afc\<lparr>rows := filter (\<lambda>r. Medicine r \<noteq> None) (rows ex_afc)\<rparr>)"
    using C10_med_list_no_missing_name [of ex_afc] by (rule conjunct1)
  then have "med_list (ex_afc\<lparr>rows := filter (\<lambda>r. Medicine r \<noteq> None) (rows ex_afc)\<rparr>) = [''X'']"
    by (simp only: ex_med_list)
  with n ex_med_list show ?thesis
    by (intro conjI)
qed

text \<open>
  C9. The department summary that the Executive Summary computes is equal, row for row,
  to the one of the Department Usage page, and when the frame has an
  \<^verbatim>\<open>ENCOUNTERCLASS\<close> column both pages show the chart of that table.
\<close>

theorem C9_exec_dept_summary_same:
  "exec_dept_summary q meds = dept_summary q meds
   \<and> (has_encounterclass meds \<longrightarrow>
        (\<exists>es1 es2. department_usage q meds = Inr es1 \<and> executive_summary q meds = Inr es2
           \<and> dept_chart (dept_summary q meds) \<in> set es1
           \<and> dept_chart (dept_summary q meds) \<in> set es2))"
proof (intro conjI impI)
  show e: "exec_dept_summary q meds = dept_summary q meds"
    by (simp only: exec_dept_summary_def dept_summary_def)
  assume "has_encounterclass meds"
  then show "\<exists>es1 es2. department_usage q meds = Inr es1 \<and> executive_summary q meds = Inr es2
           \<and> dept_chart (dept_summary q meds) \<in> set es1
           \<and> dept_chart (dept_summary q meds) \<in> set es2"
    by (simp add: department_usage_def executive_summary_def e)
qed

theorem C9_exec_dept_summary_same_witness:
  "has_encounterclass ex_meds
   \<and> exec_dept_summary sort_key ex_meds = [(''inpatient'', 1006), (''ambulatory'', 10)]
   \<and> dept_summary sort_key ex_meds = [(''inpatient'', 1006), (''ambulatory'', 10)]"
proof -
  have "dept_summary sort_key ex_meds = [(''inpatient'', 1006), (''ambulatory'', 10)]"
    by (simp add: dept_summary_def sort_values_def groupby_sum_def group_keys_def group_rows_def
        series_sum_def ex_meds_def ex_med_def)
  moreover have "has_encounterclass ex_meds"
    by (simp add: has_encounterclass_def ex_meds_def)
  ultimately show ?thesis
    using C9_exec_dept_summary_same [of sort_key ex_meds]
    by simp
qed








text \<open>
  C3. The table shown under the department chart is the first 50 rows of
  \<^verbatim>\<open>top_by_dept\<close>, so it has at most 50 rows. \<^verbatim>\<open>top_by_dept\<close> has one row per pair of
  department and medicine that occurs in the frame, with the sum of its dispenses, and
  is ordered by department ascending and, within a department, by that sum descending;
  so is its 50-row head, in which two rows of the same department never have the later
  one with the larger sum. The cut is made once on the whole ordered table, not per
  department: in the example with 51 medicines in department a and one in b, the head
  holds 50 rows of a and none of b.
\<close>

theorem C3_top_by_dept_head:
  "length (take 50 (top_by_dept meds)) \<le> 50
   \<and> sorted_wrt (\<lambda>(e1, d1, n1) (e2, d2, n2). e1 < e2 \<or> (e1 = e2 \<and> n2 \<le> n1))
        (top_by_dept meds)
   \<and> sorted_wrt (\<lambda>(e1, d1, n1) (e2, d2, n2). e1 < e2 \<or> (e1 = e2 \<and> n2 \<le> n1))
        (take 50 (top_by_dept meds))
   \<and> set (top_by_dept meds) =
       {(e, d, n). (\<exists>r \<in> set (rows meds). ENCOUNTERCLASS r = Some e \<and> DESCRIPTION r = Some d)
          \<and> n = (\<Sum>r\<leftarrow>filter (\<lambda>r. ENCOUNTERCLASS r = Some e \<and> DESCRIPTION r = Some d) (rows meds).
                   case DISPENSES r of None \<Rightarrow> 0 | Some v \<Rightarrow> v)}
   \<and> distinct (map (\<lambda>(e, d, n). (e, d)) (top_by_dept meds))
   \<and> (\<forall>i j. i < j \<and> j < length (take 50 (top_by_dept meds))
          \<and> fst (take 50 (top_by_dept meds) ! i) = fst (take 50 (top_by_dept meds) ! j) \<longrightarrow>
          snd (snd (take 50 (top_by_dept meds) ! j)) \<le> snd (snd (take 50 (top_by_dept meds) ! i)))
   \<and> (has_encounterclass meds \<longrightarrow>
        (\<exists>es. department_usage q meds = Inr es
           \<and> Dataframe (take 50 (top_by_dept meds)) \<in> set es))"
proof (intro conjI allI impI)
  show "length (take 50 (top_by_dept meds)) \<le> 50"
    by simp
  show "sorted_wrt (\<lambda>(e1, d1, n1) (e2, d2, n2). e1 < e2 \<or> (e1 = e2 \<and> n2 \<le> n1))
        (top_by_dept meds)"
    by (rule sorted_top_by_dept)
  then show t: "sorted_wrt (\<lambda>(e1, d1, n1) (e2, d2, n2). e1 < e2 \<or> (e1 = e2 \<and> n2 \<le> n1))
        (take 50 (top_by_dept meds))"
    by (rule sorted_wrt_take)
  show "set (top_by_dept meds) =
       {(e, d, n). (\<exists>r \<in> set (rows meds). ENCOUNTERCLASS r = Some e \<and> DESCRIPTION r = Some d)
          \<and> n = (\<Sum>r\<leftarrow>filter (\<lambda>r. ENCOUNTERCLASS r = Some e \<and> DESCRIPTION r = Some d) (rows meds).
                   case DISPENSES r of None \<Rightarrow> 0 | Some v \<Rightarrow> v)}"
    by (rule set_top_by_dept)
  show "distinct (map (\<lambda>(e, d, n). (e, d)) (top_by_dept meds))"
    by (rule distinct_top_by_dept)
  show "snd (snd (take 50 (top_by_dept meds) ! j)) \<le> snd (snd (take 50 (top_by_dept meds) ! i))"
    if "i < j \<and> j < length (take 50 (top_by_dept meds))
          \<and> fst (take 50 (top_by_dept meds) ! i) = fst (take 50 (top_by_dept meds) ! j)" for i j
    using run_nonincreasing [OF t] that by blast
  show "\<exists>es. department_usage q meds = Inr es
           \<and> Dataframe (take 50 (top_by_dept meds)) \<in> set es"
    if "has_encounterclass meds"
    using that by (simp add: department_usage_def)
qed

theorem C3_top_by_dept_head_witness:
  "has_encounterclass ex_meds_wide
   \<and> length (top_by_dept ex_meds_wide) = 52
   \<and> length (take 50 (top_by_dept ex_meds_wide)) = 50
   \<and> map fst (take 50 (top_by_dept ex_meds_wide)) = replicate 50 ''a''
   \<and> map fst (drop 50 (top_by_dept ex_meds_wide)) = [''a'', ''b'']
   \<and> (\<exists>es. department_usage sort_key ex_meds_wide = Inr es
        \<and> Dataframe (take 50 (top_by_dept ex_meds_wide)) \<in> set es)
   \<and> top_by_dept ex_meds =
       [(''ambulatory'', ''Aspirin'', 10), (''inpatient'', ''Aspirin'', 999),
        (''inpatient'', ''Ibuprofen'', 7)]"
proof -
  have h: "has_encounterclass ex_meds_wide"
    by (simp add: has_encounterclass_def ex_meds_wide_def)
  have "length (map fst (top_by_dept ex_meds_wide)) = 52"
    by (simp only: ex_wide_depts) simp
  then have l: "length (top_by_dept ex_meds_wide) = 52"
    by simp
  then have l50: "length (take 50 (top_by_dept ex_meds_wide)) = 50"
    by simp
  have "take 50 (map fst (top_by_dept ex_meds_wide)) = replicate 50 ''a''"
    by (simp only: ex_wide_depts) simp
  then have t: "map fst (take 50 (top_by_dept ex_meds_wide)) = replicate 50 ''a''"
    by (simp only: take_map)
  have "drop 50 (map fst (top_by_dept ex_meds_wide)) = [''a'', ''b'']"
    by (simp only: ex_wide_depts) simp
  then have d: "map fst (drop 50 (top_by_dept ex_meds_wide)) = [''a'', ''b'']"
    by (simp only: drop_map)
  have p: "\<exists>es. department_usage sort_key ex_meds_wide = Inr es
        \<and> Dataframe (take 50 (top_by_dept ex_meds_wide)) \<in> set es"
    using C3_top_by_dept_head [of ex_meds_wide sort_key] h by blast
  from h l l50 t d p ex_top_by_dept show ?thesis
    by (intro conjI)
qed

end
